theory Spec2Isabelle
  imports Main "HOL-Library.Word" "HOL-Library.Char_ord" "HOL-Library.List_Lexorder"
begin

section \<open>Cronzee: the health-check state engine and its store\<close>

text \<open>
  A shallow embedding of the Go sources \<^verbatim>\<open>monitor.go\<close>, \<^verbatim>\<open>database.go\<close> and the
  add handler of \<^verbatim>\<open>server.go\<close>.

  \<^item> Go's \<^verbatim>\<open>int\<close> counters and thresholds are 64-bit two's complement words:
    \<^verbatim>\<open>++\<close> wraps, \<^verbatim>\<open>>=\<close> is the signed comparison.
  \<^item> A \<^verbatim>\<open>time.Time\<close> is an instant, counted in nanoseconds since the Unix epoch;
    a \<^verbatim>\<open>time.Duration\<close> is a number of nanoseconds. The successive reads of
    \<^verbatim>\<open>time.Now()\<close> inside one handler call are one reading \<open>now\<close>.
  \<^item> Go strings are byte strings; \<open>string\<close> is a list of 8-bit characters.
  \<^item> Locks, goroutines and log lines have no counterpart: every function below is one
    atomic step under the lock it takes in the source.
\<close>

subsection \<open>Basic types\<close>

type_synonym go_int = "64 word"
type_synonym Time = int
type_synonym Duration = int

datatype HealthStatus = StatusHealthy | StatusUnhealthy | StatusUnknown

text \<open>The conversion \<^verbatim>\<open>string(state.Status)\<close> of the string-typed constants.\<close>

fun HealthStatus_string :: "HealthStatus \<Rightarrow> string" where
  "HealthStatus_string StatusHealthy = ''healthy''"
| "HealthStatus_string StatusUnhealthy = ''unhealthy''"
| "HealthStatus_string StatusUnknown = ''unknown''"

record Endpoint =
  Name :: string
  URL :: string
  Method :: string
  Timeout :: Duration
  ExpectedStatus :: int
  Headers :: "string \<rightharpoonup> string"
  FailureThreshold :: go_int
  SuccessThreshold :: go_int

record EndpointState =
  Endpoint :: Endpoint
  Status :: HealthStatus
  LastCheck :: Time
  LastStatusChange :: Time
  ConsecutiveFailures :: go_int
  ConsecutiveSuccesses :: go_int
  ResponseTime :: Duration
  LastError :: string
  Enabled :: bool
  AlertsSuppressed :: bool
  ID :: string
  CheckInterval :: Duration
  NextCheck :: Time

record StoredEndpoint =
  ID :: string
  Name :: string
  URL :: string
  Method :: string
  Timeout :: Duration
  CheckInterval :: Duration
  ExpectedStatus :: int
  Headers :: "string \<rightharpoonup> string"
  FailureThreshold :: go_int
  SuccessThreshold :: go_int
  Enabled :: bool
  AlertsSuppressed :: bool
  CreatedAt :: "Time option"
  UpdatedAt :: "Time option"

record HealthCheckRecord =
  EndpointID :: string
  Timestamp :: Time
  Status :: string
  ResponseTime :: Duration
  StatusCode :: int
  Error :: string

subsection \<open>Printing integers (\<^verbatim>\<open>%d\<close>)\<close>

definition digit_char :: "nat \<Rightarrow> char" where
  "digit_char d = ''0123456789'' ! d"

fun show_nat :: "nat \<Rightarrow> string" where
  "show_nat n = (if n < 10 then [digit_char n] else show_nat (n div 10) @ [digit_char (n mod 10)])"

declare show_nat.simps [simp del]

definition show_int :: "int \<Rightarrow> string" where
  "show_int i = (if i < 0 then CHR ''-'' # show_nat (nat (- i)) else show_nat (nat i))"

subsection \<open>The persistent store\<close>

text \<open>
  A bucket of the key-value engine is its content in cursor order: a list of entries,
  strictly ascending in the byte order of the keys. A stored value is a byte string;
  all the code does with it is \<^verbatim>\<open>json.Unmarshal\<close>, so a value is represented by what
  decoding gives: \<open>Json r\<close> when it decodes to \<open>r\<close> (as everything written by
  \<^verbatim>\<open>json.Marshal\<close> does), \<open>Corrupt\<close> when decoding fails.
\<close>

datatype 'a encoded = Json 'a | Corrupt

type_synonym 'a bucket = "(string \<times> 'a encoded) list"

datatype error =
    ErrKeyRequired
  | ErrKeyTooLarge
  | ErrUnmarshal
  | ErrEndpointNotFound string
  | NilPointerPanic

definition MaxKeySize :: nat where
  "MaxKeySize = 32768"

fun bucket_insert :: "string \<Rightarrow> 'a encoded \<Rightarrow> 'a bucket \<Rightarrow> 'a bucket" where
  "bucket_insert k v [] = [(k, v)]"
| "bucket_insert k v ((k', v') # b) =
     (if k < k' then (k, v) # (k', v') # b
      else if k = k' then (k, v) # b
      else (k', v') # bucket_insert k v b)"

text \<open>\<^verbatim>\<open>Bucket.Put\<close>: refuses an empty key and a key above the engine's size limit.\<close>

definition bucket_Put :: "string \<Rightarrow> 'a encoded \<Rightarrow> 'a bucket \<Rightarrow> error + 'a bucket" where
  "bucket_Put k v b =
     (if k = [] then Inl ErrKeyRequired
      else if MaxKeySize < length k then Inl ErrKeyTooLarge
      else Inr (bucket_insert k v b))"

text \<open>\<^verbatim>\<open>Bucket.Get\<close>: \<open>None\<close> is the nil slice of a missing key.\<close>

definition bucket_Get :: "string \<Rightarrow> 'a bucket \<Rightarrow> 'a encoded option" where
  "bucket_Get k b = map_of b k"

text \<open>\<^verbatim>\<open>Bucket.Delete\<close>: a missing key is not an error, nothing is done.\<close>

definition bucket_Delete :: "string \<Rightarrow> 'a bucket \<Rightarrow> 'a bucket" where
  "bucket_Delete k b = filter (\<lambda>e. fst e \<noteq> k) b"

definition bucket_ok :: "'a bucket \<Rightarrow> bool" where
  "bucket_ok b \<longleftrightarrow> sorted (map fst b) \<and> distinct (map fst b)"

record Database =
  endpoints :: "StoredEndpoint bucket"
  history :: "HealthCheckRecord bucket"


text \<open>The history key \<^verbatim>\<open>fmt.Sprintf("%s:%d", record.EndpointID, record.Timestamp.UnixNano())\<close>.\<close>

definition history_key :: "HealthCheckRecord \<Rightarrow> string" where
  "history_key record = EndpointID record @ '':'' @ show_int (Timestamp record)"

text \<open>
  \<^verbatim>\<open>SaveHealthCheckRecord\<close>: one update transaction; when \<^verbatim>\<open>Put\<close> fails the
  transaction is rolled back and the database is as before.
\<close>

definition SaveHealthCheckRecord :: "Database \<Rightarrow> HealthCheckRecord \<Rightarrow> error + Database" where
  "SaveHealthCheckRecord d record =
     (case bucket_Put (history_key record) (Json record) (history d) of
        Inl e \<Rightarrow> Inl e
      | Inr b \<Rightarrow> Inr (d\<lparr>history := b\<rparr>))"

subsection \<open>The state machine\<close>

text \<open>
  A call of the alerter, with the endpoint and the state it was handed. Whether the
  alerter then delivers anything (its own \<^verbatim>\<open>Enabled\<close> switch, the channels) is outside.
\<close>

datatype Alert =
    SendFailureAlert Endpoint EndpointState
  | SendRecoveryAlert Endpoint EndpointState

text \<open>
  \<^verbatim>\<open>saveHealthRecord\<close>: nothing without a database; the record is built without a
  \<^verbatim>\<open>StatusCode\<close>, which is therefore Go's zero value; an error of the store is logged
  and the database stays as it was.
\<close>

definition saveHealthRecord :: "Database option \<Rightarrow> EndpointState \<Rightarrow> string \<Rightarrow> Database option" where
  "saveHealthRecord db state errorMsg =
     (case db of
        None \<Rightarrow> None
      | Some d \<Rightarrow>
          (let record = \<lparr> EndpointID = EndpointState.ID state,
                          Timestamp = LastCheck state,
                          Status = HealthStatus_string (EndpointState.Status state),
                          ResponseTime = EndpointState.ResponseTime state,
                          StatusCode = 0,
                          Error = errorMsg \<rparr>
           in case SaveHealthCheckRecord d record of
                Inl e \<Rightarrow> Some d
              | Inr d' \<Rightarrow> Some d'))"

text \<open>
  The handlers return the state they leave behind, the calls they made to the alerter,
  and the database.
\<close>

definition handleCheckSuccess ::
  "Database option \<Rightarrow> Time \<Rightarrow> EndpointState \<Rightarrow> Duration
     \<Rightarrow> EndpointState \<times> Alert list \<times> Database option" where
  "handleCheckSuccess db now state responseTime =
     (let s1 = state\<lparr> LastCheck := now,
                      NextCheck := now + EndpointState.CheckInterval state,
                      EndpointState.ResponseTime := responseTime,
                      ConsecutiveFailures := 0,
                      ConsecutiveSuccesses := ConsecutiveSuccesses state + 1,
                      LastError := [] \<rparr>;
          previousStatus = EndpointState.Status s1;
          s2 = (if Endpoint.SuccessThreshold (Endpoint s1) <=s ConsecutiveSuccesses s1
                then s1\<lparr> EndpointState.Status := StatusHealthy \<rparr> else s1);
          s3 = (if previousStatus = StatusUnhealthy \<and> EndpointState.Status s2 = StatusHealthy
                then s2\<lparr> LastStatusChange := now \<rparr> else s2);
          alerts = (if previousStatus = StatusUnhealthy \<and> EndpointState.Status s2 = StatusHealthy
                      \<and> \<not> EndpointState.AlertsSuppressed s3
                    then [SendRecoveryAlert (Endpoint s3) s3] else [])
      in (s3, alerts, saveHealthRecord db s3 []))"

definition handleCheckFailure ::
  "Database option \<Rightarrow> Time \<Rightarrow> EndpointState \<Rightarrow> string \<Rightarrow> Duration
     \<Rightarrow> EndpointState \<times> Alert list \<times> Database option" where
  "handleCheckFailure db now state errorMsg responseTime =
     (let s1 = state\<lparr> LastCheck := now,
                      NextCheck := now + EndpointState.CheckInterval state,
                      EndpointState.ResponseTime := responseTime,
                      ConsecutiveSuccesses := 0,
                      ConsecutiveFailures := ConsecutiveFailures state + 1,
                      LastError := errorMsg \<rparr>;
          previousStatus = EndpointState.Status s1;
          s2 = (if Endpoint.FailureThreshold (Endpoint s1) <=s ConsecutiveFailures s1
                then s1\<lparr> EndpointState.Status := StatusUnhealthy \<rparr> else s1);
          s3 = (if previousStatus \<noteq> StatusUnhealthy \<and> EndpointState.Status s2 = StatusUnhealthy
                then s2\<lparr> LastStatusChange := now \<rparr> else s2);
          alerts = (if previousStatus \<noteq> StatusUnhealthy \<and> EndpointState.Status s2 = StatusUnhealthy
                      \<and> \<not> EndpointState.AlertsSuppressed s3
                    then [SendFailureAlert (Endpoint s3) s3] else [])
      in (s3, alerts, saveHealthRecord db s3 errorMsg))"

subsection \<open>One health check\<close>

text \<open>
  What the network gave for the one request of a check: \<^verbatim>\<open>http.NewRequestWithContext\<close>
  failed with an error text; \<^verbatim>\<open>client.Do\<close> failed (transport error, timeout,
  cancellation) after the elapsed time; or a response with a status code arrived after the
  elapsed time.
\<close>

datatype HttpResult =
    NewRequestError string
  | DoError string Duration
  | Response int Duration

definition checkEndpoint ::
  "Database option \<Rightarrow> Time \<Rightarrow> EndpointState \<Rightarrow> HttpResult
     \<Rightarrow> EndpointState \<times> Alert list \<times> Database option" where
  "checkEndpoint db now state http =
     (case http of
        NewRequestError err \<Rightarrow>
          handleCheckFailure db now state (''failed to create request: '' @ err) 0
      | DoError err responseTime \<Rightarrow>
          handleCheckFailure db now state (''request failed: '' @ err) responseTime
      | Response statusCode responseTime \<Rightarrow>
          if statusCode \<noteq> Endpoint.ExpectedStatus (Endpoint state)
          then handleCheckFailure db now state
                 (''unexpected status code: got '' @ show_int statusCode @ '', expected ''
                    @ show_int (Endpoint.ExpectedStatus (Endpoint state)))
                 responseTime
          else handleCheckSuccess db now state responseTime)"

text \<open>
  The successive checks of one endpoint, as the scheduler runs them one after the other:
  each element is the clock reading and the network's answer of one check. The result is
  the final state, all calls to the alerter in order, and the database.
\<close>

fun run_checks ::
  "Database option \<Rightarrow> EndpointState \<Rightarrow> (Time \<times> HttpResult) list
     \<Rightarrow> EndpointState \<times> Alert list \<times> Database option" where
  "run_checks db state [] = (state, [], db)"
| "run_checks db state ((now, http) # rest) =
     (case checkEndpoint db now state http of
        (state', alerts, db') \<Rightarrow>
          (case run_checks db' state' rest of
             (state'', alerts', db'') \<Rightarrow> (state'', alerts @ alerts', db'')))"

text \<open>The status after each check of such a run, and the number of changes in a status sequence.\<close>

fun status_trace ::
  "Database option \<Rightarrow> EndpointState \<Rightarrow> (Time \<times> HttpResult) list \<Rightarrow> HealthStatus list" where
  "status_trace db state [] = []"
| "status_trace db state ((now, http) # rest) =
     (case checkEndpoint db now state http of
        (state', alerts, db') \<Rightarrow> EndpointState.Status state' # status_trace db' state' rest)"

fun count_changes :: "HealthStatus \<Rightarrow> HealthStatus list \<Rightarrow> nat" where
  "count_changes prev [] = 0"
| "count_changes prev (s # ss) = (if s \<noteq> prev then 1 else 0) + count_changes s ss"

subsection \<open>History query and retention\<close>










subsection \<open>Endpoint identifiers\<close>

text \<open>
  The loops of \<^verbatim>\<open>generateIDWithURL\<close> range over runes; every byte of a rune outside
  ASCII is outside all the ranges tested, as the rune is, so ranging over bytes drops
  exactly what the source drops.
\<close>

definition is_alnum :: "char \<Rightarrow> bool" where
  "is_alnum c \<longleftrightarrow>
     (CHR ''a'' \<le> c \<and> c \<le> CHR ''z'') \<or> (CHR ''A'' \<le> c \<and> c \<le> CHR ''Z'')
       \<or> (CHR ''0'' \<le> c \<and> c \<le> CHR ''9'')"

definition is_separator :: "char \<Rightarrow> bool" where
  "is_separator c \<longleftrightarrow>
     c = CHR '' '' \<or> c = CHR ''-'' \<or> c = CHR ''_'' \<or> c = CHR ''/'' \<or> c = CHR '':''
       \<or> c = CHR ''.''"

text \<open>First loop: the string \<^verbatim>\<open>id\<close> (here \<open>ident\<close>), built front to back.\<close>

fun replace_chars :: "string \<Rightarrow> string" where
  "replace_chars [] = []"
| "replace_chars (c # cs) =
     (if is_alnum c then c # replace_chars cs
      else if is_separator c then CHR ''-'' # replace_chars cs
      else replace_chars cs)"

text \<open>Second loop: the string \<^verbatim>\<open>result\<close>, with the flag \<^verbatim>\<open>prevDash\<close>.\<close>

fun collapse_dashes :: "bool \<Rightarrow> string \<Rightarrow> string" where
  "collapse_dashes prevDash [] = []"
| "collapse_dashes prevDash (c # cs) =
     (if c = CHR ''-''
      then (if \<not> prevDash then c # collapse_dashes True cs else collapse_dashes True cs)
      else c # collapse_dashes False cs)"

text \<open>Third loop: cut dashes off the end.\<close>

function trim_trailing :: "string \<Rightarrow> string" where
  "trim_trailing result =
     (if 0 < length result \<and> result ! (length result - 1) = CHR ''-''
      then trim_trailing (take (length result - 1) result)
      else result)"
  by pat_completeness auto
termination
  by (relation "measure length") auto

declare trim_trailing.simps [simp del]

definition generateIDWithURL :: "string \<Rightarrow> string \<Rightarrow> string" where
  "generateIDWithURL name url =
     (let combined = name @ ''-'' @ url;
          ident = replace_chars combined;
          result = collapse_dashes False ident
      in trim_trailing result)"

subsection \<open>Endpoint definitions in the store\<close>

text \<open>
  \<^verbatim>\<open>SaveEndpoint\<close> writes the time stamps and the defaults into the struct it was given,
  then puts it under its ID. The struct keeps these writes also when \<^verbatim>\<open>Put\<close> fails, so
  it is returned beside the outcome. A \<^verbatim>\<open>time.Time\<close> field that may be the zero time is an
  option.
\<close>

definition fill_defaults :: "Time \<Rightarrow> StoredEndpoint \<Rightarrow> StoredEndpoint" where
  "fill_defaults now endpoint =
     (let e = (if CreatedAt endpoint = None then endpoint\<lparr> CreatedAt := Some now \<rparr> else endpoint);
          e = e\<lparr> UpdatedAt := Some now \<rparr>;
          e = (if StoredEndpoint.Method e = [] then e\<lparr> StoredEndpoint.Method := ''GET'' \<rparr> else e);
          e = (if StoredEndpoint.Timeout e = 0
               then e\<lparr> StoredEndpoint.Timeout := 10 * 1000000000 \<rparr> else e);
          e = (if StoredEndpoint.ExpectedStatus e = 0
               then e\<lparr> StoredEndpoint.ExpectedStatus := 200 \<rparr> else e);
          e = (if StoredEndpoint.FailureThreshold e = 0
               then e\<lparr> StoredEndpoint.FailureThreshold := 3 \<rparr> else e);
          e = (if StoredEndpoint.SuccessThreshold e = 0
               then e\<lparr> StoredEndpoint.SuccessThreshold := 2 \<rparr> else e);
          e = (if StoredEndpoint.CheckInterval e = 0
               then e\<lparr> StoredEndpoint.CheckInterval := 30 * 1000000000 \<rparr> else e)
      in e)"

definition SaveEndpoint ::
  "Time \<Rightarrow> Database \<Rightarrow> StoredEndpoint \<Rightarrow> StoredEndpoint \<times> (error + Database)" where
  "SaveEndpoint now d endpoint =
     (let endpoint = fill_defaults now endpoint
      in (endpoint,
          case bucket_Put (StoredEndpoint.ID endpoint) (Json endpoint) (endpoints d) of
            Inl e \<Rightarrow> Inl e
          | Inr b \<Rightarrow> Inr (d\<lparr>endpoints := b\<rparr>)))"

text \<open>\<^verbatim>\<open>GetAllEndpoints\<close>: the first value that does not decode ends the scan with its error.\<close>

fun decode_each :: "StoredEndpoint bucket \<Rightarrow> error + StoredEndpoint list" where
  "decode_each [] = Inr []"
| "decode_each ((k, v) # rest) =
     (case v of
        Corrupt \<Rightarrow> Inl ErrUnmarshal
      | Json endpoint \<Rightarrow>
          (case decode_each rest of
             Inl e \<Rightarrow> Inl e
           | Inr eps \<Rightarrow> Inr (endpoint # eps)))"

definition GetAllEndpoints :: "Database \<Rightarrow> error + StoredEndpoint list" where
  "GetAllEndpoints d = decode_each (endpoints d)"

definition GetEndpoint :: "Database \<Rightarrow> string \<Rightarrow> error + StoredEndpoint" where
  "GetEndpoint d ident =
     (case bucket_Get ident (endpoints d) of
        None \<Rightarrow> Inl (ErrEndpointNotFound ident)
      | Some Corrupt \<Rightarrow> Inl ErrUnmarshal
      | Some (Json endpoint) \<Rightarrow> Inr endpoint)"

definition DeleteEndpoint :: "Database \<Rightarrow> string \<Rightarrow> error + Database" where
  "DeleteEndpoint d ident = Inr (d\<lparr>endpoints := bucket_Delete ident (endpoints d)\<rparr>)"

definition ToEndpoint :: "StoredEndpoint \<Rightarrow> Endpoint" where
  "ToEndpoint s =
     \<lparr> Endpoint.Name = StoredEndpoint.Name s,
       Endpoint.URL = StoredEndpoint.URL s,
       Endpoint.Method = StoredEndpoint.Method s,
       Endpoint.Timeout = StoredEndpoint.Timeout s,
       Endpoint.ExpectedStatus = StoredEndpoint.ExpectedStatus s,
       Endpoint.Headers = StoredEndpoint.Headers s,
       Endpoint.FailureThreshold = StoredEndpoint.FailureThreshold s,
       Endpoint.SuccessThreshold = StoredEndpoint.SuccessThreshold s \<rparr>"

subsection \<open>The monitor's registry\<close>

text \<open>
  The monitor holds the map of runtime states and the pointer to the database, which may
  be nil. The server's own \<^verbatim>\<open>db\<close> field is the same pointer, so the handler below reads
  the database through the monitor. A method that locks a nil database panics.
\<close>

record Monitor =
  config_CheckInterval :: Duration
  states :: "string \<rightharpoonup> EndpointState"
  db :: "Database option"

text \<open>
  The struct literal of a new runtime state; the fields it leaves out are zero (the zero
  time of \<^verbatim>\<open>LastStatusChange\<close> is written 0: nothing below reads it).
\<close>

definition new_state :: "Time \<Rightarrow> StoredEndpoint \<Rightarrow> Duration \<Rightarrow> EndpointState" where
  "new_state now stored checkInterval =
     \<lparr> Endpoint = ToEndpoint stored,
       EndpointState.Status = StatusUnknown,
       LastCheck = now,
       LastStatusChange = 0,
       ConsecutiveFailures = 0,
       ConsecutiveSuccesses = 0,
       EndpointState.ResponseTime = 0,
       LastError = [],
       EndpointState.Enabled = StoredEndpoint.Enabled stored,
       EndpointState.AlertsSuppressed = StoredEndpoint.AlertsSuppressed stored,
       EndpointState.ID = StoredEndpoint.ID stored,
       EndpointState.CheckInterval = checkInterval,
       NextCheck = now \<rparr>"

definition AddEndpoint ::
  "Time \<Rightarrow> Monitor \<Rightarrow> StoredEndpoint \<Rightarrow> error + Monitor \<times> StoredEndpoint" where
  "AddEndpoint now m stored =
     (case db m of
        None \<Rightarrow> Inl NilPointerPanic
      | Some d \<Rightarrow>
          (case SaveEndpoint now d stored of
             (stored, Inl err) \<Rightarrow> Inl err
           | (stored, Inr d') \<Rightarrow>
               (let checkInterval =
                      (if StoredEndpoint.CheckInterval stored = 0 then config_CheckInterval m
                       else StoredEndpoint.CheckInterval stored)
                in Inr (m\<lparr> db := Some d',
                            states := (states m)(StoredEndpoint.ID stored \<mapsto>
                                          new_state now stored checkInterval) \<rparr>,
                        stored))))"

definition RemoveEndpoint :: "Monitor \<Rightarrow> string \<Rightarrow> error + Monitor" where
  "RemoveEndpoint m ident =
     (case db m of
        None \<Rightarrow> Inl NilPointerPanic
      | Some d \<Rightarrow>
          (case DeleteEndpoint d ident of
             Inl err \<Rightarrow> Inl err
           | Inr d' \<Rightarrow> Inr (m\<lparr> db := Some d', states := (states m)(ident := None) \<rparr>)))"

subsection \<open>The add handler\<close>

record EndpointRequest =
  ID :: string
  Name :: string
  URL :: string
  Method :: string
  Timeout :: string
  CheckInterval :: string
  ExpectedStatus :: int
  Headers :: "string \<rightharpoonup> string"
  FailureThreshold :: go_int
  SuccessThreshold :: go_int

text \<open>
  An incoming request: its method, and its body as the JSON decoder reads it
  (\<open>Inl\<close> the decoder's error text when decoding fails).
\<close>

record Request =
  Method :: string
  Body :: "string + EndpointRequest"

text \<open>
  What the handler writes: \<^verbatim>\<open>http.Error\<close> with a message and a status code, or the
  success document with the stored endpoint; a panic ends the handler without either.
\<close>

datatype Reply =
    HttpError string nat
  | Success StoredEndpoint
  | HandlerPanic

definition StatusBadRequest :: nat where "StatusBadRequest = 400"
definition StatusMethodNotAllowed :: nat where "StatusMethodNotAllowed = 405"
definition StatusConflict :: nat where "StatusConflict = 409"
definition StatusInternalServerError :: nat where "StatusInternalServerError = 500"

text \<open>The text of an error value, as \<^verbatim>\<open>err.Error()\<close> gives it.\<close>

fun error_text :: "error \<Rightarrow> string" where
  "error_text ErrKeyRequired = ''key required''"
| "error_text ErrKeyTooLarge = ''key too large''"
| "error_text ErrUnmarshal = ''invalid character''"
| "error_text (ErrEndpointNotFound ident) = ''endpoint not found: '' @ ident"
| "error_text NilPointerPanic = ''runtime error: invalid memory address or nil pointer dereference''"

text \<open>The loop over the stored endpoints: the first one with the name or the URL.\<close>

fun find_conflict :: "StoredEndpoint list \<Rightarrow> string \<Rightarrow> string \<Rightarrow> Reply option" where
  "find_conflict [] name url = None"
| "find_conflict (ep # eps) name url =
     (if StoredEndpoint.Name ep = name
      then Some (HttpError ''Endpoint with this name already exists'' StatusConflict)
      else if StoredEndpoint.URL ep = url
      then Some (HttpError ''Endpoint with this URL already exists'' StatusConflict)
      else find_conflict eps name url)"

text \<open>
  \<^verbatim>\<open>handleAddEndpoint\<close>. The library's \<^verbatim>\<open>time.ParseDuration\<close> is a parameter
  (\<open>Inl\<close> its error text). The error of \<^verbatim>\<open>GetAllEndpoints\<close> is dropped by the source
  (\<^verbatim>\<open>allEndpoints, _ :=\<close>): the list is then nil.
\<close>

definition handleAddEndpoint ::
  "(string \<Rightarrow> string + Duration) \<Rightarrow> Time \<Rightarrow> Monitor \<Rightarrow> Request \<Rightarrow> Reply \<times> Monitor" where
  "handleAddEndpoint ParseDuration now m r =
     (if Request.Method r \<noteq> ''POST''
      then (HttpError ''Method not allowed'' StatusMethodNotAllowed, m)
      else
       (case Body r of
          Inl e \<Rightarrow> (HttpError (''Invalid request body: '' @ e) StatusBadRequest, m)
        | Inr req \<Rightarrow>
           (if EndpointRequest.Name req = [] \<or> EndpointRequest.URL req = []
            then (HttpError ''Name and URL are required'' StatusBadRequest, m)
            else
             (let ident = generateIDWithURL (EndpointRequest.Name req) (EndpointRequest.URL req)
              in
               (case db m of
                  None \<Rightarrow> (HandlerPanic, m)
                | Some d \<Rightarrow>
                   (let allEndpoints = (case GetAllEndpoints d of Inl e \<Rightarrow> [] | Inr eps \<Rightarrow> eps)
                    in
                     (case find_conflict allEndpoints (EndpointRequest.Name req)
                             (EndpointRequest.URL req) of
                        Some reply \<Rightarrow> (reply, m)
                      | None \<Rightarrow>
                         (case (if EndpointRequest.Timeout req \<noteq> []
                                then ParseDuration (EndpointRequest.Timeout req)
                                else Inr (10 * 1000000000)) of
                            Inl e \<Rightarrow>
                              (HttpError (''Invalid timeout format: '' @ e) StatusBadRequest, m)
                          | Inr timeout \<Rightarrow>
                             (case (if EndpointRequest.CheckInterval req \<noteq> []
                                    then ParseDuration (EndpointRequest.CheckInterval req)
                                    else Inr (30 * 1000000000)) of
                                Inl e \<Rightarrow>
                                  (HttpError (''Invalid check_interval format: '' @ e)
                                     StatusBadRequest, m)
                              | Inr checkInterval \<Rightarrow>
                                 (let endpoint =
                                    \<lparr> StoredEndpoint.ID = ident,
                                      StoredEndpoint.Name = EndpointRequest.Name req,
                                      StoredEndpoint.URL = EndpointRequest.URL req,
                                      StoredEndpoint.Method = EndpointRequest.Method req,
                                      StoredEndpoint.Timeout = timeout,
                                      StoredEndpoint.CheckInterval = checkInterval,
                                      StoredEndpoint.ExpectedStatus =
                                        EndpointRequest.ExpectedStatus req,
                                      StoredEndpoint.Headers = EndpointRequest.Headers req,
                                      StoredEndpoint.FailureThreshold =
                                        EndpointRequest.FailureThreshold req,
                                      StoredEndpoint.SuccessThreshold =
                                        EndpointRequest.SuccessThreshold req,
                                      StoredEndpoint.Enabled = True,
                                      StoredEndpoint.AlertsSuppressed = False,
                                      CreatedAt = None,
                                      UpdatedAt = None \<rparr>
                                  in
                                   (case AddEndpoint now m endpoint of
                                      Inl err \<Rightarrow>
                                        (HttpError (error_text err) StatusInternalServerError, m)
                                    | Inr (m', stored) \<Rightarrow> (Success stored, m'))))))))))))"

subsection \<open>Concrete inputs\<close>

text \<open>An endpoint with the default thresholds (3 failures, 2 successes) and its fresh state.\<close>

definition api_endpoint :: Endpoint where
  "api_endpoint =
     \<lparr> Endpoint.Name = ''API'', Endpoint.URL = ''https://x'', Endpoint.Method = ''GET'',
       Endpoint.Timeout = 10 * 1000000000, Endpoint.ExpectedStatus = 200,
       Endpoint.Headers = Map.empty, Endpoint.FailureThreshold = 3,
       Endpoint.SuccessThreshold = 2 \<rparr>"

definition api_state :: EndpointState where
  "api_state =
     \<lparr> Endpoint = api_endpoint, EndpointState.Status = StatusUnknown, LastCheck = 0,
       LastStatusChange = 0, ConsecutiveFailures = 0, ConsecutiveSuccesses = 0,
       EndpointState.ResponseTime = 0, LastError = [], EndpointState.Enabled = True,
       EndpointState.AlertsSuppressed = False, EndpointState.ID = ''API-https-x'',
       EndpointState.CheckInterval = 30 * 1000000000, NextCheck = 0 \<rparr>"

text \<open>The state after two failed checks of that endpoint, at times 1 and 2.\<close>

definition two_failures :: EndpointState where
  "two_failures =
     api_state\<lparr> LastCheck := 2, NextCheck := 30000000002, EndpointState.ResponseTime := 5,
       ConsecutiveFailures := 2, LastError := ''unexpected status code: got 500, expected 200'' \<rparr>"

text \<open>The state after a third failed check at time 3, which reaches the failure threshold.\<close>

definition three_failures :: EndpointState where
  "three_failures =
     two_failures\<lparr> LastCheck := 3, NextCheck := 30000000003, LastStatusChange := 3,
       ConsecutiveFailures := 3, LastError := ''request failed: timeout'',
       EndpointState.Status := StatusUnhealthy \<rparr>"

text \<open>An empty database, and the record of a check answered with status 503 at time 5.\<close>

definition empty_db :: Database where
  "empty_db = \<lparr> endpoints = [], history = [] \<rparr>"

definition record_503 :: HealthCheckRecord where
  "record_503 =
     \<lparr> EndpointID = ''API-https-x'', Timestamp = 5, Status = ''unknown'', ResponseTime = 7,
       StatusCode = 0, Error = ''unexpected status code: got 503, expected 200'' \<rparr>"

text \<open>Every decodable record of the history has status code 0.\<close>

definition all_codes_zero :: "Database \<Rightarrow> bool" where
  "all_codes_zero d \<longleftrightarrow> (\<forall>e \<in> set (history d). \<forall>r. snd e = Json r \<longrightarrow> StatusCode r = 0)"

text \<open>
  The endpoint as the store holds it after it was added at time 1, and the monitor that
  holds nothing else.
\<close>

definition api_stored :: StoredEndpoint where
  "api_stored =
     \<lparr> StoredEndpoint.ID = ''API-https-x'', StoredEndpoint.Name = ''API'',
       StoredEndpoint.URL = ''https://x'', StoredEndpoint.Method = ''GET'',
       StoredEndpoint.Timeout = 10000000000, StoredEndpoint.CheckInterval = 30000000000,
       StoredEndpoint.ExpectedStatus = 200, StoredEndpoint.Headers = Map.empty,
       StoredEndpoint.FailureThreshold = 3, StoredEndpoint.SuccessThreshold = 2,
       StoredEndpoint.Enabled = True, StoredEndpoint.AlertsSuppressed = False,
       CreatedAt = Some 1, UpdatedAt = Some 1 \<rparr>"

definition empty_monitor :: Monitor where
  "empty_monitor =
     \<lparr> config_CheckInterval = 30000000000, states = Map.empty, db = Some empty_db \<rparr>"

definition api_monitor :: Monitor where
  "api_monitor =
     \<lparr> config_CheckInterval = 30000000000,
       states = [''API-https-x'' \<mapsto> new_state 1 api_stored 30000000000],
       db = Some \<lparr> endpoints = [(''API-https-x'', Json api_stored)], history = [] \<rparr> \<rparr>"








text \<open>Two requests to add an endpoint named API, with different URLs.\<close>

definition request_x :: Request where
  "request_x =
     \<lparr> Request.Method = ''POST'',
       Body = Inr \<lparr> EndpointRequest.ID = [], EndpointRequest.Name = ''API'',
                    EndpointRequest.URL = ''https://x'', EndpointRequest.Method = [],
                    EndpointRequest.Timeout = [], EndpointRequest.CheckInterval = [],
                    EndpointRequest.ExpectedStatus = 0, EndpointRequest.Headers = Map.empty,
                    EndpointRequest.FailureThreshold = 0,
                    EndpointRequest.SuccessThreshold = 0 \<rparr> \<rparr>"

definition request_y :: Request where
  "request_y =
     \<lparr> Request.Method = ''POST'',
       Body = Inr \<lparr> EndpointRequest.ID = [], EndpointRequest.Name = ''API'',
                    EndpointRequest.URL = ''https://y'', EndpointRequest.Method = [],
                    EndpointRequest.Timeout = [], EndpointRequest.CheckInterval = [],
                    EndpointRequest.ExpectedStatus = 0, EndpointRequest.Headers = Map.empty,
                    EndpointRequest.FailureThreshold = 0,
                    EndpointRequest.SuccessThreshold = 0 \<rparr> \<rparr>"

text \<open>A parser of durations that accepts nothing; the requests above never call it.\<close>

definition no_duration :: "string \<Rightarrow> string + Duration" where
  "no_duration s = Inl ''time: invalid duration''"

section \<open>Properties\<close>

subsection \<open>The two counters\<close>

lemma sint_succ:
  assumes "sint (w :: 64 word) < 2 ^ 63 - 1"
  shows "sint (w + 1) = sint w + 1"
proof -
  have lo: "- (2 ^ 63) \<le> sint w" using sint_ge [of w] by simp
  have "sint (w + 1) = signed_take_bit 63 (sint w + 1)"
    by (simp add: sint_word_ariths)
  also have "\<dots> = sint w + 1"
    using assms lo by (intro signed_take_bit_int_eq_self) auto
  finally show ?thesis .
qed

lemma fst_handleCheckSuccess_counters:
  "ConsecutiveFailures (fst (handleCheckSuccess dbo now state rt)) = 0"
  "ConsecutiveSuccesses (fst (handleCheckSuccess dbo now state rt)) = ConsecutiveSuccesses state + 1"
  by (simp_all add: handleCheckSuccess_def Let_def)

lemma fst_handleCheckFailure_counters:
  "ConsecutiveSuccesses (fst (handleCheckFailure dbo now state msg rt)) = 0"
  "ConsecutiveFailures (fst (handleCheckFailure dbo now state msg rt)) = ConsecutiveFailures state + 1"
  by (simp_all add: handleCheckFailure_def Let_def)

text \<open>A check ends in exactly one of the two handlers.\<close>

lemma checkEndpoint_cases:
  "checkEndpoint dbo now state http =
     handleCheckSuccess dbo now state (case http of Response c rt \<Rightarrow> rt | _ \<Rightarrow> 0)
   \<or> (\<exists>msg rt. checkEndpoint dbo now state http = handleCheckFailure dbo now state msg rt)"
  by (cases http) (auto simp: checkEndpoint_def)

text \<open>
  Claim C2. From every endpoint state, handling a successful check sets the
  consecutive-failure counter to 0 and adds exactly 1 to the consecutive-success counter;
  handling a failed check sets the consecutive-success counter to 0 and adds exactly 1 to
  the consecutive-failure counter; and every check does one of the two, so exactly one
  counter is incremented per outcome. The addition is that of Go's 64-bit \<^verbatim>\<open>int\<close>; below
  the largest value it is the addition of the integers.
\<close>

theorem counters_reset_and_increment:
  "(let s = fst (handleCheckSuccess dbo now state rt)
    in ConsecutiveFailures s = 0 \<and> ConsecutiveSuccesses s = ConsecutiveSuccesses state + 1
       \<and> (sint (ConsecutiveSuccesses state) < 2 ^ 63 - 1
            \<longrightarrow> sint (ConsecutiveSuccesses s) = sint (ConsecutiveSuccesses state) + 1))
   \<and> (let f = fst (handleCheckFailure dbo now state msg rt)
      in ConsecutiveSuccesses f = 0 \<and> ConsecutiveFailures f = ConsecutiveFailures state + 1
         \<and> (sint (ConsecutiveFailures state) < 2 ^ 63 - 1
              \<longrightarrow> sint (ConsecutiveFailures f) = sint (ConsecutiveFailures state) + 1))
   \<and> (let c = fst (checkEndpoint dbo now state http)
      in (ConsecutiveFailures c = 0 \<and> ConsecutiveSuccesses c = ConsecutiveSuccesses state + 1)
         \<or> (ConsecutiveSuccesses c = 0 \<and> ConsecutiveFailures c = ConsecutiveFailures state + 1))"
proof -
  have "(ConsecutiveFailures (fst (checkEndpoint dbo now state http)) = 0
           \<and> ConsecutiveSuccesses (fst (checkEndpoint dbo now state http))
               = ConsecutiveSuccesses state + 1)
        \<or> (ConsecutiveSuccesses (fst (checkEndpoint dbo now state http)) = 0
           \<and> ConsecutiveFailures (fst (checkEndpoint dbo now state http))
               = ConsecutiveFailures state + 1)"
    using checkEndpoint_cases [of dbo now state http]
    by (auto simp: fst_handleCheckSuccess_counters fst_handleCheckFailure_counters)
  then show ?thesis
    by (simp add: Let_def fst_handleCheckSuccess_counters fst_handleCheckFailure_counters sint_succ)
qed

theorem counters_reset_and_increment_witness:
  "ConsecutiveFailures (fst (handleCheckSuccess None 5 api_state 7)) = 0
   \<and> sint (ConsecutiveSuccesses (fst (handleCheckSuccess None 5 api_state 7))) = 1
   \<and> ConsecutiveSuccesses (fst (handleCheckFailure None 5 api_state ''request failed: x'' 7)) = 0
   \<and> sint (ConsecutiveFailures (fst (handleCheckFailure None 5 api_state ''request failed: x'' 7))) = 1"
  using counters_reset_and_increment [of None 5 api_state 7 "''request failed: x''" "Response 200 7"]
  by (simp add: Let_def api_state_def)

subsection \<open>Threshold hysteresis\<close>

lemmas run_defs =
  checkEndpoint_def handleCheckFailure_def handleCheckSuccess_def saveHealthRecord_def Let_def

lemmas show_int_eval = show_int_def show_nat.simps digit_char_def

lemma show_int_examples: "show_int 500 = ''500''" "show_int 200 = ''200''"
  by (simp_all add: show_int_eval)

lemma run_two_failures:
  "run_checks None api_state [(1, DoError ''timeout'' 5), (2, Response 500 5)]
     = (two_failures, [], None)"
  by (simp add: run_defs two_failures_def show_int_examples api_state_def api_endpoint_def word_sle_eq)







subsection \<open>Alerts on transitions\<close>

lemma handleCheckSuccess_alerts:
  assumes "handleCheckSuccess dbo now state rt = (state', alerts, dbo')"
  shows "alerts = (if EndpointState.Status state = StatusUnhealthy
                      \<and> EndpointState.Status state' = StatusHealthy
                      \<and> \<not> EndpointState.AlertsSuppressed state
                   then [SendRecoveryAlert (Endpoint state') state'] else [])"
    and "EndpointState.Status state' = EndpointState.Status state
         \<or> EndpointState.Status state' = StatusHealthy"
  using assms by (auto simp: handleCheckSuccess_def Let_def split: if_splits)

lemma handleCheckFailure_alerts:
  assumes "handleCheckFailure dbo now state msg rt = (state', alerts, dbo')"
  shows "alerts = (if EndpointState.Status state \<noteq> StatusUnhealthy
                      \<and> EndpointState.Status state' = StatusUnhealthy
                      \<and> \<not> EndpointState.AlertsSuppressed state
                   then [SendFailureAlert (Endpoint state') state'] else [])"
    and "EndpointState.Status state' = EndpointState.Status state
         \<or> EndpointState.Status state' = StatusUnhealthy"
  using assms by (auto simp: handleCheckFailure_def Let_def split: if_splits)

lemma checkEndpoint_alerts:
  assumes "checkEndpoint dbo now state http = (state', alerts, dbo')"
  shows "alerts = [] \<or>
         (EndpointState.Status state' \<noteq> EndpointState.Status state
          \<and> ((EndpointState.Status state' = StatusHealthy \<and> EndpointState.Status state = StatusUnhealthy
                \<and> alerts = [SendRecoveryAlert (Endpoint state') state'])
             \<or> (EndpointState.Status state' = StatusUnhealthy
                \<and> EndpointState.Status state \<noteq> StatusUnhealthy
                \<and> alerts = [SendFailureAlert (Endpoint state') state'])))"
proof -
  from checkEndpoint_cases [of dbo now state http]
  consider rt where "handleCheckSuccess dbo now state rt = (state', alerts, dbo')"
    | msg rt where "handleCheckFailure dbo now state msg rt = (state', alerts, dbo')"
    using assms by auto
  then show ?thesis
  proof cases
    case 1
    from handleCheckSuccess_alerts(1) [OF 1] show ?thesis by (auto split: if_splits)
  next
    case 2
    from handleCheckFailure_alerts(1) [OF 2] show ?thesis by (auto split: if_splits)
  qed
qed

lemma run_checks_alerts_le_changes:
  "length (fst (snd (run_checks dbo state checks)))
     \<le> count_changes (EndpointState.Status state) (status_trace dbo state checks)"
proof (induction checks arbitrary: dbo state)
  case Nil
  show ?case by simp
next
  case (Cons c checks)
  obtain now http where c: "c = (now, http)" by (cases c)
  obtain state' alerts dbo' where step: "checkEndpoint dbo now state http = (state', alerts, dbo')"
    by (cases "checkEndpoint dbo now state http")
  have one: "length alerts \<le> (if EndpointState.Status state' \<noteq> EndpointState.Status state then 1 else 0)"
    using checkEndpoint_alerts [OF step] by auto
  obtain state'' alerts' dbo'' where rest: "run_checks dbo' state' checks = (state'', alerts', dbo'')"
    by (cases "run_checks dbo' state' checks")
  from Cons.IH [of dbo' state'] one show ?case
    by (auto simp: c step rest split: if_splits)
qed

text \<open>
  Claim C3. After any sequence of checks, one further check calls the alerter at most
  once, and only when the status after the check differs from the status before it: with
  a recovery alert when the new status is \<open>healthy\<close> and the previous one was
  \<open>unhealthy\<close>, with a failure alert when the new status is \<open>unhealthy\<close> and the
  previous one was not. A check that leaves the status unchanged calls nothing, and over
  a whole sequence the number of calls is at most the number of status changes.
\<close>

theorem alert_only_on_transition:
  assumes "run_checks dbo0 state0 checks = (state, alerts0, dbo)"
    and "checkEndpoint dbo now state http = (state', alerts, dbo')"
  shows "length alerts \<le> 1
     \<and> (EndpointState.Status state' = EndpointState.Status state \<longrightarrow> alerts = [])
     \<and> (alerts \<noteq> [] \<longrightarrow>
          EndpointState.Status state' \<noteq> EndpointState.Status state
          \<and> ((EndpointState.Status state' = StatusHealthy
                \<and> EndpointState.Status state = StatusUnhealthy
                \<and> alerts = [SendRecoveryAlert (Endpoint state') state'])
             \<or> (EndpointState.Status state' = StatusUnhealthy
                \<and> EndpointState.Status state \<noteq> StatusUnhealthy
                \<and> alerts = [SendFailureAlert (Endpoint state') state'])))
     \<and> length alerts0 \<le> count_changes (EndpointState.Status state0) (status_trace dbo0 state0 checks)"
proof -
  have "length alerts0 \<le> count_changes (EndpointState.Status state0) (status_trace dbo0 state0 checks)"
    using run_checks_alerts_le_changes [of dbo0 state0 checks] assms(1) by simp
  with checkEndpoint_alerts [OF assms(2)] show ?thesis by auto
qed


lemma third_check:
  "checkEndpoint None 3 two_failures (DoError ''timeout'' 5)
     = (three_failures, [SendFailureAlert api_endpoint three_failures], None)"
  by (simp add: run_defs three_failures_def two_failures_def api_state_def api_endpoint_def word_sle_eq)

theorem alert_only_on_transition_witness:
  "run_checks None api_state [(1, DoError ''timeout'' 5), (2, Response 500 5)] = (two_failures, [], None)
   \<and> checkEndpoint None 3 two_failures (DoError ''timeout'' 5)
       = (three_failures, [SendFailureAlert api_endpoint three_failures], None)
   \<and> EndpointState.Status two_failures = StatusUnknown
   \<and> EndpointState.Status three_failures = StatusUnhealthy
   \<and> length [SendFailureAlert api_endpoint three_failures] \<le> 1"
  using alert_only_on_transition [OF run_two_failures third_check]
  by (simp only: run_two_failures third_check simp_thms)
     (simp add: three_failures_def two_failures_def api_state_def)

subsection \<open>Classification of a check\<close>

text \<open>
  Claim C7. A check is classified in exactly one of four ways. A request that cannot be
  built is a failure with the error \<^verbatim>\<open>failed to create request: \<close> followed by the cause
  and response time 0; a transport failure or timeout is a failure with the error
  \<^verbatim>\<open>request failed: \<close> followed by the cause and the elapsed time; a response with
  another status code than the expected one is a failure with the error
  \<^verbatim>\<open>unexpected status code: got X, expected Y\<close> and the elapsed time; a response with the
  expected status code is a success with the elapsed time.
\<close>

theorem check_classification:
  "(let r = checkEndpoint dbo now state (NewRequestError err)
    in r = handleCheckFailure dbo now state (''failed to create request: '' @ err) 0
       \<and> LastError (fst r) = ''failed to create request: '' @ err
       \<and> EndpointState.ResponseTime (fst r) = 0
       \<and> ConsecutiveFailures (fst r) = ConsecutiveFailures state + 1)
   \<and> (let r = checkEndpoint dbo now state (DoError err elapsed)
      in r = handleCheckFailure dbo now state (''request failed: '' @ err) elapsed
         \<and> LastError (fst r) = ''request failed: '' @ err
         \<and> EndpointState.ResponseTime (fst r) = elapsed
         \<and> ConsecutiveFailures (fst r) = ConsecutiveFailures state + 1)
   \<and> (let r = checkEndpoint dbo now state (Response code elapsed);
          expected = Endpoint.ExpectedStatus (Endpoint state)
      in (code \<noteq> expected \<longrightarrow>
            r = handleCheckFailure dbo now state
                  (''unexpected status code: got '' @ show_int code @ '', expected '' @ show_int expected)
                  elapsed
            \<and> LastError (fst r)
                = ''unexpected status code: got '' @ show_int code @ '', expected '' @ show_int expected
            \<and> EndpointState.ResponseTime (fst r) = elapsed
            \<and> ConsecutiveFailures (fst r) = ConsecutiveFailures state + 1)
         \<and> (code = expected \<longrightarrow>
              r = handleCheckSuccess dbo now state elapsed
              \<and> LastError (fst r) = []
              \<and> EndpointState.ResponseTime (fst r) = elapsed
              \<and> ConsecutiveSuccesses (fst r) = ConsecutiveSuccesses state + 1))
   \<and> ((\<exists>e. http = NewRequestError e) \<or> (\<exists>e t. http = DoError e t)
       \<or> (\<exists>c t. http = Response c t \<and> c \<noteq> Endpoint.ExpectedStatus (Endpoint state))
       \<or> (\<exists>t. http = Response (Endpoint.ExpectedStatus (Endpoint state)) t))"
proof -
  have fields_f: "LastError (fst (handleCheckFailure dbo now state m t)) = m
      \<and> EndpointState.ResponseTime (fst (handleCheckFailure dbo now state m t)) = t" for m t
    by (simp add: handleCheckFailure_def Let_def)
  have fields_s: "LastError (fst (handleCheckSuccess dbo now state t)) = []
      \<and> EndpointState.ResponseTime (fst (handleCheckSuccess dbo now state t)) = t" for t
    by (simp add: handleCheckSuccess_def Let_def)
  have ex: "(\<exists>e. http = NewRequestError e) \<or> (\<exists>e t. http = DoError e t)
       \<or> (\<exists>c t. http = Response c t \<and> c \<noteq> Endpoint.ExpectedStatus (Endpoint state))
       \<or> (\<exists>t. http = Response (Endpoint.ExpectedStatus (Endpoint state)) t)"
    by (cases http) auto
  show ?thesis
    unfolding Let_def
    by (intro conjI impI ex)
       (simp_all add: checkEndpoint_def fields_f fields_s
          fst_handleCheckFailure_counters fst_handleCheckSuccess_counters)
qed

lemma show_int_503: "show_int 503 = ''503''" "show_int 5 = ''5''"
  by (simp_all add: show_int_eval)

theorem check_classification_witness:
  "LastError (fst (checkEndpoint None 5 api_state (Response 503 7)))
     = ''unexpected status code: got 503, expected 200''
   \<and> EndpointState.ResponseTime (fst (checkEndpoint None 5 api_state (Response 503 7))) = 7
   \<and> LastError (fst (checkEndpoint None 5 api_state (Response 200 7))) = []
   \<and> ConsecutiveSuccesses (fst (checkEndpoint None 5 api_state (Response 200 7))) = 1"
  using check_classification [of None 5 api_state "''x''" 7 503 "Response 503 7"]
    check_classification [of None 5 api_state "''x''" 7 200 "Response 200 7"]
  by (simp add: run_defs api_state_def api_endpoint_def show_int_503 show_int_examples word_sle_eq)

subsection \<open>The status code of persisted records\<close>

lemma set_bucket_insert: "set (bucket_insert k v b) \<subseteq> insert (k, v) (set b)"
  by (induction b) (auto split: if_splits)

lemma saveHealthRecord_history:
  "\<exists>d'. saveHealthRecord (Some d) state msg = Some d'
        \<and> endpoints d' = endpoints d
        \<and> (\<forall>e \<in> set (history d'). e \<in> set (history d) \<or> (\<exists>r. snd e = Json r \<and> StatusCode r = 0))"
proof -
  let ?r = "\<lparr> EndpointID = EndpointState.ID state, Timestamp = LastCheck state,
              Status = HealthStatus_string (EndpointState.Status state),
              ResponseTime = EndpointState.ResponseTime state, StatusCode = 0, Error = msg \<rparr>"
  show ?thesis
  proof (cases "bucket_Put (history_key ?r) (Json ?r) (history d)")
    case (Inl e)
    then show ?thesis
      by (simp add: saveHealthRecord_def SaveHealthCheckRecord_def Let_def)
  next
    case (Inr b)
    then have b: "b = bucket_insert (history_key ?r) (Json ?r) (history d)"
      by (auto simp: bucket_Put_def split: if_splits)
    have "\<forall>e \<in> set b. e \<in> set (history d) \<or> (\<exists>r. snd e = Json r \<and> StatusCode r = 0)"
      using set_bucket_insert [of "history_key ?r" "Json ?r" "history d"] b by auto
    with Inr show ?thesis
      by (simp add: saveHealthRecord_def SaveHealthCheckRecord_def Let_def)
  qed
qed

lemma handlers_save:
  "snd (snd (handleCheckFailure dbo now state msg rt))
     = saveHealthRecord dbo (fst (handleCheckFailure dbo now state msg rt)) msg"
  "snd (snd (handleCheckSuccess dbo now state rt))
     = saveHealthRecord dbo (fst (handleCheckSuccess dbo now state rt)) []"
  by (simp_all add: handleCheckFailure_def handleCheckSuccess_def Let_def)

lemma checkEndpoint_save:
  "\<exists>st msg. snd (snd (checkEndpoint dbo now state http)) = saveHealthRecord dbo st msg"
  using checkEndpoint_cases [of dbo now state http] handlers_save by metis

lemma checkEndpoint_history:
  "\<exists>d'. snd (snd (checkEndpoint (Some d) now state http)) = Some d'
        \<and> endpoints d' = endpoints d
        \<and> (\<forall>e \<in> set (history d'). e \<in> set (history d) \<or> (\<exists>r. snd e = Json r \<and> StatusCode r = 0))"
proof -
  obtain st msg where "snd (snd (checkEndpoint (Some d) now state http)) = saveHealthRecord (Some d) st msg"
    using checkEndpoint_save by blast
  with saveHealthRecord_history [of d st msg] show ?thesis by simp
qed

lemma run_checks_codes_zero:
  "all_codes_zero d \<Longrightarrow>
     \<exists>d'. snd (snd (run_checks (Some d) state checks)) = Some d' \<and> all_codes_zero d'"
proof (induction checks arbitrary: d state)
  case Nil
  then show ?case by simp
next
  case (Cons c checks)
  obtain now http where c: "c = (now, http)" by (cases c)
  obtain state' alerts dbo' where step: "checkEndpoint (Some d) now state http = (state', alerts, dbo')"
    by (cases "checkEndpoint (Some d) now state http")
  from checkEndpoint_history [of d now state http] step
  obtain d1 where d1: "dbo' = Some d1"
    and h: "\<forall>e \<in> set (history d1). e \<in> set (history d) \<or> (\<exists>r. snd e = Json r \<and> StatusCode r = 0)"
    by auto
  have "all_codes_zero d1"
    unfolding all_codes_zero_def
  proof (intro ballI allI impI)
    fix e r assume e: "e \<in> set (history d1)" and r: "snd e = Json r"
    from h e have "e \<in> set (history d) \<or> (\<exists>r. snd e = Json r \<and> StatusCode r = 0)" by blast
    with r Cons.prems show "StatusCode r = 0" by (auto simp: all_codes_zero_def)
  qed
  from Cons.IH [OF this, of state'] obtain d' where
    "snd (snd (run_checks (Some d1) state' checks)) = Some d'" "all_codes_zero d'" by blast
  then show ?case
    by (auto simp: c step d1 split: prod.splits)
qed

text \<open>
  Claim C10. Every health-check record the monitor persists has status code 0, whether or
  not a response arrived: a check adds to the history nothing but a record with status
  code 0, so a history whose records all have status code 0 keeps that through any
  sequence of checks. The status code of the response is never copied into the record.
\<close>

theorem persisted_status_code_zero:
  "(\<exists>d'. snd (snd (checkEndpoint (Some d) now state http)) = Some d'
         \<and> (\<forall>e \<in> set (history d'). e \<in> set (history d) \<or> (\<exists>r. snd e = Json r \<and> StatusCode r = 0)))
   \<and> (all_codes_zero d \<longrightarrow>
        (\<exists>d'. snd (snd (run_checks (Some d) state checks)) = Some d' \<and> all_codes_zero d'))"
  using checkEndpoint_history [of d now state http] run_checks_codes_zero [of d state checks]
  by blast

lemma check_503:
  "snd (snd (checkEndpoint (Some empty_db) 5 api_state (Response 503 7)))
     = Some \<lparr> endpoints = [], history = [(''API-https-x:5'', Json record_503)] \<rparr>"
  by (simp add: run_defs api_state_def api_endpoint_def show_int_503 show_int_examples word_sle_eq
        empty_db_def record_503_def SaveHealthCheckRecord_def bucket_Put_def MaxKeySize_def
        history_key_def)

theorem persisted_status_code_zero_witness:
  "snd (snd (checkEndpoint (Some empty_db) 5 api_state (Response 503 7)))
     = Some \<lparr> endpoints = [], history = [(''API-https-x:5'', Json record_503)] \<rparr>
   \<and> StatusCode record_503 = 0
   \<and> all_codes_zero empty_db
   \<and> (\<exists>d'. snd (snd (run_checks (Some empty_db) api_state [(5, Response 503 7)])) = Some d'
            \<and> all_codes_zero d')"
proof -
  have zero: "all_codes_zero empty_db"
    by (simp add: all_codes_zero_def empty_db_def)
  with persisted_status_code_zero [of empty_db 5 api_state "Response 503 7" "[(5, Response 503 7)]"]
  have "\<exists>d'. snd (snd (run_checks (Some empty_db) api_state [(5, Response 503 7)])) = Some d'
            \<and> all_codes_zero d'"
    by blast
  moreover have "StatusCode record_503 = 0"
    by (simp add: record_503_def)
  ultimately show ?thesis
    using check_503 zero by blast
qed

subsection \<open>Removing an endpoint\<close>

lemma bucket_Delete_absent:
  "k \<notin> fst ` set b \<Longrightarrow> bucket_Delete k b = b"
  by (induction b) (auto simp: bucket_Delete_def)

text \<open>
  Claim C9. Removing an ID that is not registered succeeds: there is no not-found error,
  the persisted endpoints stay as they are when the store has no such key, the map of
  runtime states stays as it is when it has no such entry, and with both the monitor is
  unchanged. (The monitor has its database; a method of a nil database panics.)
\<close>

theorem remove_absent_is_noop:
  assumes "db m = Some d"
  shows "(\<exists>m'. RemoveEndpoint m ident = Inr m')
     \<and> (ident \<notin> fst ` set (endpoints d) \<longrightarrow>
          (\<exists>m'. RemoveEndpoint m ident = Inr m' \<and> db m' = db m))
     \<and> (states m ident = None \<longrightarrow>
          (\<exists>m'. RemoveEndpoint m ident = Inr m' \<and> states m' = states m))
     \<and> (ident \<notin> fst ` set (endpoints d) \<and> states m ident = None \<longrightarrow>
          RemoveEndpoint m ident = Inr m)"
proof -
  have st: "states m ident = None \<Longrightarrow> (states m)(ident := None) = states m"
    by (rule fun_upd_idem) simp
  show ?thesis
    using assms
    by (auto simp: RemoveEndpoint_def DeleteEndpoint_def bucket_Delete_absent st)
qed

theorem remove_absent_is_noop_witness:
  "db api_monitor = Some \<lparr> endpoints = [(''API-https-x'', Json api_stored)], history = [] \<rparr>
   \<and> states api_monitor ''gone'' = None
   \<and> RemoveEndpoint api_monitor ''gone'' = Inr api_monitor"
proof -
  have d: "db api_monitor = Some \<lparr> endpoints = [(''API-https-x'', Json api_stored)], history = [] \<rparr>"
    by (simp add: api_monitor_def)
  have s: "states api_monitor ''gone'' = None"
    by (simp add: api_monitor_def)
  have k: "''gone'' \<notin> fst ` set (endpoints \<lparr> endpoints = [(''API-https-x'', Json api_stored)], history = [] \<rparr>)"
    by simp
  from remove_absent_is_noop [OF d, of "''gone''"] s k
  have "RemoveEndpoint api_monitor ''gone'' = Inr api_monitor" by blast
  with d s show ?thesis by blast
qed

subsection \<open>Retention\<close>







subsection \<open>Endpoint identifiers\<close>
















lemma generated_ids:
  "generateIDWithURL ''API'' ''https://x'' = ''API-https-x''"
  "generateIDWithURL ''API'' ''https://y'' = ''API-https-y''"
  by code_simp+




subsection \<open>The history query\<close>


lemma early_keys: "(''API-https-x:10000000000'' :: string) < ''API-https-x:9000000000''"
  by simp







subsection \<open>Adding an endpoint\<close>

lemma find_conflict_Some:
  "\<exists>ep \<in> set eps. StoredEndpoint.Name ep = name \<or> StoredEndpoint.URL ep = url \<Longrightarrow>
     \<exists>msg. find_conflict eps name url = Some (HttpError msg StatusConflict)"
  by (induction eps) auto

lemma decode_each_readable:
  "\<forall>e \<in> set b. snd e \<noteq> Corrupt \<Longrightarrow>
     \<exists>eps. decode_each b = Inr eps \<and> set eps = {ep. \<exists>k. (k, Json ep) \<in> set b}"
proof (induction b)
  case Nil
  show ?case by simp
next
  case (Cons e b)
  obtain k v where e: "e = (k, v)" by (cases e)
  from Cons.prems e obtain ep where v: "v = Json ep" by (cases v) auto
  from Cons obtain eps where eps: "decode_each b = Inr eps"
    "set eps = {ep. \<exists>k. (k, Json ep) \<in> set b}" by auto
  show ?case
    by (auto simp: e v eps)
qed

lemma bucket_insert_readable:
  "\<forall>e \<in> set b. snd e \<noteq> Corrupt \<Longrightarrow> \<forall>e \<in> set (bucket_insert k (Json x) b). snd e \<noteq> Corrupt"
  using set_bucket_insert [of k "Json x" b] by auto

lemma AddEndpoint_readable:
  assumes "db m = Some d" "\<forall>e \<in> set (endpoints d). snd e \<noteq> Corrupt"
    and "AddEndpoint now m endpoint = Inr (m', stored)"
  shows "\<exists>d'. db m' = Some d' \<and> (\<forall>e \<in> set (endpoints d'). snd e \<noteq> Corrupt)"
  using assms bucket_insert_readable [OF assms(2)]
  by (auto simp: AddEndpoint_def SaveEndpoint_def bucket_Put_def Let_def split: if_splits)

lemma handleAddEndpoint_cases:
  "snd (handleAddEndpoint ParseDuration now m r) = m
   \<or> (\<exists>endpoint stored.
         AddEndpoint now m endpoint = Inr (snd (handleAddEndpoint ParseDuration now m r), stored))"
  unfolding handleAddEndpoint_def Let_def
  by (simp split: sum.split option.split prod.split) blast

lemma handleAddEndpoint_readable:
  assumes "db m = Some d" "\<forall>e \<in> set (endpoints d). snd e \<noteq> Corrupt"
  shows "\<exists>d'. db (snd (handleAddEndpoint ParseDuration now m r)) = Some d'
            \<and> (\<forall>e \<in> set (endpoints d'). snd e \<noteq> Corrupt)"
  using handleAddEndpoint_cases [of ParseDuration now m r] AddEndpoint_readable [OF assms] assms
  by metis

text \<open>
  Claim C8. An add request whose definition has an empty name or an empty URL is
  rejected with the validation error (status 400, after the method check), and a POST
  request whose non-empty name or URL equals that of an endpoint in the store is
  rejected with status 409 Conflict; in both cases the monitor, with its store and its
  runtime states, is as before. The store is one the program wrote: every value decodes,
  and whatever the handler answers, every value of the store decodes afterwards.
  In particular, after adding the name API with \<^verbatim>\<open>https://x\<close>, adding the name API with
  \<^verbatim>\<open>https://y\<close> fails with Conflict.
\<close>

theorem add_rejects_invalid_and_duplicate:
  assumes "Body r = Inr req"
  shows "(EndpointRequest.Name req = [] \<or> EndpointRequest.URL req = [] \<longrightarrow>
            handleAddEndpoint ParseDuration now m r =
              (if Request.Method r = ''POST''
               then HttpError ''Name and URL are required'' StatusBadRequest
               else HttpError ''Method not allowed'' StatusMethodNotAllowed, m))
     \<and> (\<forall>d k ep. Request.Method r = ''POST'' \<and> db m = Some d
            \<and> (\<forall>e \<in> set (endpoints d). snd e \<noteq> Corrupt)
            \<and> EndpointRequest.Name req \<noteq> [] \<and> EndpointRequest.URL req \<noteq> []
            \<and> (k, Json ep) \<in> set (endpoints d)
            \<and> (StoredEndpoint.Name ep = EndpointRequest.Name req
                 \<or> StoredEndpoint.URL ep = EndpointRequest.URL req)
            \<longrightarrow> (\<exists>msg. handleAddEndpoint ParseDuration now m r = (HttpError msg StatusConflict, m)))
     \<and> (\<forall>d. db m = Some d \<and> (\<forall>e \<in> set (endpoints d). snd e \<noteq> Corrupt)
            \<longrightarrow> (\<exists>d'. db (snd (handleAddEndpoint ParseDuration now m r)) = Some d'
                    \<and> (\<forall>e \<in> set (endpoints d'). snd e \<noteq> Corrupt)))"
proof (intro conjI impI allI)
  assume "EndpointRequest.Name req = [] \<or> EndpointRequest.URL req = []"
  with assms show "handleAddEndpoint ParseDuration now m r =
              (if Request.Method r = ''POST''
               then HttpError ''Name and URL are required'' StatusBadRequest
               else HttpError ''Method not allowed'' StatusMethodNotAllowed, m)"
    by (simp add: handleAddEndpoint_def)
next
  fix d k ep
  assume a: "Request.Method r = ''POST'' \<and> db m = Some d
            \<and> (\<forall>e \<in> set (endpoints d). snd e \<noteq> Corrupt)
            \<and> EndpointRequest.Name req \<noteq> [] \<and> EndpointRequest.URL req \<noteq> []
            \<and> (k, Json ep) \<in> set (endpoints d)
            \<and> (StoredEndpoint.Name ep = EndpointRequest.Name req
                 \<or> StoredEndpoint.URL ep = EndpointRequest.URL req)"
  then obtain eps where eps: "GetAllEndpoints d = Inr eps"
    "set eps = {ep. \<exists>k. (k, Json ep) \<in> set (endpoints d)}"
    using decode_each_readable [of "endpoints d"] by (auto simp: GetAllEndpoints_def)
  with a have "\<exists>ep \<in> set eps. StoredEndpoint.Name ep = EndpointRequest.Name req
                                \<or> StoredEndpoint.URL ep = EndpointRequest.URL req"
    by blast
  then obtain msg where
    "find_conflict eps (EndpointRequest.Name req) (EndpointRequest.URL req)
       = Some (HttpError msg StatusConflict)"
    using find_conflict_Some by blast
  with a assms eps(1)
  show "\<exists>msg. handleAddEndpoint ParseDuration now m r = (HttpError msg StatusConflict, m)"
    by (simp add: handleAddEndpoint_def Let_def)
next
  fix d
  assume "db m = Some d \<and> (\<forall>e \<in> set (endpoints d). snd e \<noteq> Corrupt)"
  then show "\<exists>d'. db (snd (handleAddEndpoint ParseDuration now m r)) = Some d'
                    \<and> (\<forall>e \<in> set (endpoints d'). snd e \<noteq> Corrupt)"
    using handleAddEndpoint_readable [of m d ParseDuration now r] by blast
qed

lemma first_add:
  "handleAddEndpoint no_duration 1 empty_monitor request_x = (Success api_stored, api_monitor)"
  by (simp add: handleAddEndpoint_def Let_def empty_monitor_def request_x_def generated_ids
        empty_db_def GetAllEndpoints_def AddEndpoint_def SaveEndpoint_def fill_defaults_def
        bucket_Put_def MaxKeySize_def api_stored_def api_monitor_def)

lemma second_add:
  "handleAddEndpoint no_duration 2 api_monitor request_y
     = (HttpError ''Endpoint with this name already exists'' StatusConflict, api_monitor)"
  by (simp add: handleAddEndpoint_def Let_def api_monitor_def request_y_def generated_ids
        GetAllEndpoints_def api_stored_def)

theorem add_rejects_invalid_and_duplicate_witness:
  "handleAddEndpoint no_duration 1 empty_monitor request_x = (Success api_stored, api_monitor)
   \<and> handleAddEndpoint no_duration 2 api_monitor request_y
       = (HttpError ''Endpoint with this name already exists'' StatusConflict, api_monitor)
   \<and> (\<exists>msg. handleAddEndpoint no_duration 2 api_monitor request_y
              = (HttpError msg StatusConflict, api_monitor))"
proof -
  have b: "Body request_y = Inr (projr (Body request_y))"
    by (simp add: request_y_def)
  have pre: "Request.Method request_y = ''POST''
      \<and> db api_monitor = Some \<lparr> endpoints = [(''API-https-x'', Json api_stored)], history = [] \<rparr>
      \<and> (\<forall>e \<in> set (endpoints \<lparr> endpoints = [(''API-https-x'', Json api_stored)], history = [] \<rparr>).
            snd e \<noteq> Corrupt)
      \<and> EndpointRequest.Name (projr (Body request_y)) \<noteq> []
      \<and> EndpointRequest.URL (projr (Body request_y)) \<noteq> []
      \<and> (''API-https-x'', Json api_stored)
            \<in> set (endpoints \<lparr> endpoints = [(''API-https-x'', Json api_stored)], history = [] \<rparr>)
      \<and> (StoredEndpoint.Name api_stored = EndpointRequest.Name (projr (Body request_y))
            \<or> StoredEndpoint.URL api_stored = EndpointRequest.URL (projr (Body request_y)))"
    by (simp add: request_y_def api_monitor_def api_stored_def)
  from add_rejects_invalid_and_duplicate [OF b, of no_duration 2 api_monitor] pre
  have "\<exists>msg. handleAddEndpoint no_duration 2 api_monitor request_y
              = (HttpError msg StatusConflict, api_monitor)"
    by blast
  with first_add second_add show ?thesis by blast
qed

end
